theory Spec2Isabelle
  imports Complex_Main
begin

section \<open>The order workflow of the skincare shop back end\<close>

text \<open>
  This theory embeds the three order handlers of \<^verbatim>\<open>src/routes/orderRoute.js\<close>
  (\<^verbatim>\<open>POST /add-to-cart\<close>, \<^verbatim>\<open>POST /cancel-order/:orderId\<close>,
  \<^verbatim>\<open>GET /vnpay-return\<close>) together with the two Mongoose schemas they touch
  (\<^verbatim>\<open>src/models/order.model.js\<close> and the product schema).

  Conventions of the embedding:
  \<^item> A JavaScript \<^verbatim>\<open>Number\<close> that holds a stock count, a price or an amount is an
    \<^typ>\<open>int\<close>; the halved refund amount is a \<^typ>\<open>rat\<close>. The model is that of
    whole-number quantities and prices whose sums and products stay below \<open>2^53\<close> in
    magnitude, where the arithmetic of the doubles is exact. Fractional values, and the
    rounding of larger ones, are not part of the model.
  \<^item> A document store is a map from object ids to documents; a handler takes the store
    and returns the store it leaves behind together with the response it sent.
  \<^item> Every awaited persistence call may reject. The environment of a request says
    which ones do, by their position among the awaited persistence calls of the request.
  \<^item> The handlers run one at a time: the interleaving of concurrent requests is not
    part of the model.
  \<^item> Timestamps and the product fields the handlers never read are left out.
\<close>

subsection \<open>Data model\<close>

type_synonym oid = nat

text \<open>
  A string that reaches Mongoose where the schema wants an ObjectId: either it casts to
  an object id, or it does not (the cast throws a CastError).
\<close>

datatype idval = Oid oid | NotOid string

text \<open>
  A field of a JSON request body that the handler distinguishes three ways: missing
  (\<^verbatim>\<open>undefined\<close> after destructuring), \<^verbatim>\<open>null\<close>, or present with a value.
\<close>

datatype 'a json_field = Absent | JNull | Given 'a

fun castObjectId :: "idval \<Rightarrow> oid option" where
  "castObjectId (Oid i) = Some i"
| "castObjectId (NotOid s) = None"

text \<open>The product schema: \<^verbatim>\<open>name\<close>, \<^verbatim>\<open>quantity\<close> (the stock) and \<^verbatim>\<open>price\<close>.\<close>

record product_doc =
  name :: string
  quantity :: int
  price :: int

text \<open>
  A line item \<^verbatim>\<open>{product, quantity}\<close>. In a request body the product is a string
  (an \<open>idval line_item\<close>); in a stored order it is an object id
  (an \<open>oid line_item\<close>).
\<close>

record 'a line_item =
  product :: 'a
  item_quantity :: int

datatype order_status = Pending | Paid | Canceled

text \<open>The order schema of \<^verbatim>\<open>order.model.js\<close>.\<close>

record order =
  account :: oid
  status :: order_status
  items :: "oid line_item list"
  promotion :: "oid option"
  totalAmount :: int

record db =
  products :: "oid \<rightharpoonup> product_doc"
  orders :: "oid \<rightharpoonup> order"

subsection \<open>Responses\<close>

text \<open>
  The JSON bodies the handlers send. Where the source formats a message from values,
  the constructor carries the values:
  \<^item> \<open>Message\<close>: \<^verbatim>\<open>{ message }\<close> with a fixed text;
  \<^item> \<open>ProductNotFound p\<close>: "Product with ID p not found.";
  \<^item> \<open>NotEnoughStock n a r\<close>: "Not enough stock for n. Available: a, Requested: r";
  \<^item> \<open>ServerError\<close>: the body of the \<^verbatim>\<open>catch\<close> branch;
  \<^item> \<open>PaymentCreated u i\<close>: \<^verbatim>\<open>{ vnpayResponse: u, orderId: i }\<close>;
  \<^item> \<open>OrderNotFound\<close>: the "order not found" message of the cancellation handler;
  \<^item> \<open>RefundIssued r\<close>: the confirmation message with \<^verbatim>\<open>refundAmount: r\<close>.
\<close>

datatype payload =
    Message string
  | ProductNotFound idval
  | NotEnoughStock string int int
  | ServerError
  | PaymentCreated string oid
  | OrderNotFound
  | RefundIssued rat

datatype response = Json nat payload | Redirect string

subsection \<open>The environment of one request\<close>

text \<open>
  \<open>db_rejects k\<close>: the \<open>k\<close>-th awaited persistence call of the request (counted from 0)
  rejects. \<open>buildPaymentUrl amount ref\<close>: the payment gateway library's answer, \<open>None\<close>
  when the call throws. \<open>newObjectId\<close>: the id the driver generates for a new order.
\<close>

record env =
  db_rejects :: "nat \<Rightarrow> bool"
  buildPaymentUrl :: "int \<Rightarrow> oid \<Rightarrow> string option"
  newObjectId :: oid

subsection \<open>Persistence calls\<close>

text \<open>
  Each call takes the rejection schedule and its own position \<open>k\<close>. \<open>None\<close> is a
  rejected promise (an exception at the \<^verbatim>\<open>await\<close>). The schedule stands for every
  reason a call can reject for: a lost connection, a write error, a validation error of
  a document that was loaded from the store. Two reasons are decided by the arguments
  and are written out: a reference that does not cast to ObjectId, and the validation
  of a newly built order.
\<close>

definition Product_findById ::
  "(nat \<Rightarrow> bool) \<Rightarrow> nat \<Rightarrow> (oid \<rightharpoonup> product_doc) \<Rightarrow> idval \<Rightarrow> (oid \<times> product_doc) option option" where
  "Product_findById rej k ps ref =
     (if rej k then None
      else case castObjectId ref of
             None \<Rightarrow> None
           | Some p \<Rightarrow> (case ps p of None \<Rightarrow> Some None | Some doc \<Rightarrow> Some (Some (p, doc))))"

definition product_save ::
  "(nat \<Rightarrow> bool) \<Rightarrow> nat \<Rightarrow> (oid \<rightharpoonup> product_doc) \<Rightarrow> oid \<times> product_doc \<Rightarrow> (oid \<rightharpoonup> product_doc) option" where
  "product_save rej k ps pd = (if rej k then None else Some (ps(fst pd \<mapsto> snd pd)))"

text \<open>
  \<^verbatim>\<open>new db.Order({account, items, promotion, totalAmount, status: "Pending"})\<close> followed
  by the validation that \<^verbatim>\<open>save()\<close> runs: \<open>account\<close>, every \<open>items.product\<close> and
  a \<open>promotion\<close> that is not \<^verbatim>\<open>null\<close> must cast to ObjectId, and every
  \<open>items.quantity\<close> is at least 1 (\<^verbatim>\<open>min: 1\<close>). The promotion argument is
  \<open>None\<close> for \<^verbatim>\<open>null\<close>. The result \<open>None\<close> is a ValidationError.
\<close>

fun cast_items :: "idval line_item list \<Rightarrow> oid line_item list option" where
  "cast_items [] = Some []"
| "cast_items (it # its) =
     (case castObjectId (product it) of
        None \<Rightarrow> None
      | Some p \<Rightarrow>
          if item_quantity it < 1 then None
          else (case cast_items its of
                  None \<Rightarrow> None
                | Some cs \<Rightarrow> Some (\<lparr>product = p, item_quantity = item_quantity it\<rparr> # cs)))"

definition new_Order ::
  "idval \<Rightarrow> idval line_item list \<Rightarrow> idval option \<Rightarrow> int \<Rightarrow> order option" where
  "new_Order acc its promo amount =
     (case castObjectId acc of
        None \<Rightarrow> None
      | Some a \<Rightarrow>
          (case cast_items its of
             None \<Rightarrow> None
           | Some cs \<Rightarrow>
               (case promo of
                  None \<Rightarrow>
                    Some \<lparr>account = a, status = Pending, items = cs,
                          promotion = None, totalAmount = amount\<rparr>
                | Some v \<Rightarrow>
                    (case castObjectId v of
                       None \<Rightarrow> None
                     | Some pr \<Rightarrow>
                         Some \<lparr>account = a, status = Pending, items = cs,
                               promotion = Some pr, totalAmount = amount\<rparr>))))"

text \<open>
  \<^verbatim>\<open>newOrder.save()\<close>: rejects on a scheduled failure, on a validation error, and on
  an insert under an id that is already taken (duplicate key).
\<close>

definition newOrder_save ::
  "(nat \<Rightarrow> bool) \<Rightarrow> nat \<Rightarrow> (oid \<rightharpoonup> order) \<Rightarrow> oid \<Rightarrow> order option \<Rightarrow> (oid \<rightharpoonup> order) option" where
  "newOrder_save rej k os i doc =
     (if rej k then None
      else case doc of
             None \<Rightarrow> None
           | Some ord \<Rightarrow> (case os i of Some old \<Rightarrow> None | None \<Rightarrow> Some (os(i \<mapsto> ord))))"

text \<open>\<^verbatim>\<open>order.save()\<close> on a loaded order: writes the document back under its id.\<close>

definition order_save ::
  "(nat \<Rightarrow> bool) \<Rightarrow> nat \<Rightarrow> (oid \<rightharpoonup> order) \<Rightarrow> oid \<Rightarrow> order \<Rightarrow> (oid \<rightharpoonup> order) option" where
  "order_save rej k os i ord = (if rej k then None else Some (os(i \<mapsto> ord)))"

text \<open>
  \<^verbatim>\<open>db.Order.findById(orderId).populate("items.product")\<close>: the order, its id, and its
  line items with each product reference replaced by the product document (with its
  \<^verbatim>\<open>_id\<close>), or by \<^verbatim>\<open>null\<close> (\<open>None\<close>) when no such product exists.
\<close>

definition populate ::
  "(oid \<rightharpoonup> product_doc) \<Rightarrow> oid line_item \<Rightarrow> (oid \<times> product_doc) option line_item" where
  "populate ps it =
     \<lparr>product = (case ps (product it) of None \<Rightarrow> None | Some doc \<Rightarrow> Some (product it, doc)),
      item_quantity = item_quantity it\<rparr>"

definition Order_findById_populate ::
  "(nat \<Rightarrow> bool) \<Rightarrow> nat \<Rightarrow> db \<Rightarrow> idval \<Rightarrow>
     (oid \<times> order \<times> (oid \<times> product_doc) option line_item list) option option" where
  "Order_findById_populate rej k d ref =
     (if rej k then None
      else case castObjectId ref of
             None \<Rightarrow> None
           | Some i \<Rightarrow>
               (case orders d i of
                  None \<Rightarrow> Some None
                | Some ord \<Rightarrow> Some (Some (i, ord, map (populate (products d)) (items ord)))))"

text \<open>
  \<^verbatim>\<open>db.Order.findByIdAndUpdate(ref, { status: "Paid" })\<close>: sets the status of the order
  with that id, whatever the status was; when no order has the id, nothing is written
  and the call resolves to \<^verbatim>\<open>null\<close>.
\<close>

definition Order_findByIdAndUpdate_status ::
  "(nat \<Rightarrow> bool) \<Rightarrow> nat \<Rightarrow> (oid \<rightharpoonup> order) \<Rightarrow> idval \<Rightarrow> order_status \<Rightarrow> (oid \<rightharpoonup> order) option" where
  "Order_findByIdAndUpdate_status rej k os ref st =
     (if rej k then None
      else case castObjectId ref of
             None \<Rightarrow> None
           | Some i \<Rightarrow>
               (case os i of
                  None \<Rightarrow> Some os
                | Some ord \<Rightarrow> Some (os(i \<mapsto> ord\<lparr>status := st\<rparr>))))"

subsection \<open>POST /add-to-cart\<close>

text \<open>
  The first loop (lines 119 to 134): for each line item, fetch the product, answer 404
  or 400 at once when it is missing or short of stock, otherwise add to the total,
  lower the quantity of the fetched document in memory and remember the document.
  Every \<^verbatim>\<open>findById\<close> reads the store afresh, so a product that is listed twice is
  fetched twice, each time with its persisted quantity.
\<close>

fun check_items ::
  "(nat \<Rightarrow> bool) \<Rightarrow> nat \<Rightarrow> (oid \<rightharpoonup> product_doc) \<Rightarrow> idval line_item list \<Rightarrow> int \<Rightarrow>
     (oid \<times> product_doc) list \<Rightarrow> response + (int \<times> (oid \<times> product_doc) list)" where
  "check_items rej k ps [] amount updatedProducts = Inr (amount, updatedProducts)"
| "check_items rej k ps (item # rest) amount updatedProducts =
     (case Product_findById rej k ps (product item) of
        None \<Rightarrow> Inl (Json 500 ServerError)
      | Some None \<Rightarrow> Inl (Json 404 (ProductNotFound (product item)))
      | Some (Some (p, doc)) \<Rightarrow>
          if quantity doc < item_quantity item
          then Inl (Json 400 (NotEnoughStock (name doc) (quantity doc) (item_quantity item)))
          else check_items rej (Suc k) ps rest (amount + item_quantity item * price doc)
                 (updatedProducts @ [(p, doc\<lparr>quantity := quantity doc - item_quantity item\<rparr>)]))"

text \<open>
  The second loop (lines 137 to 139) saves the remembered documents in order. The flag
  is \<open>False\<close> when a save rejected; the saves before it stay in the store.
\<close>

fun save_products ::
  "(nat \<Rightarrow> bool) \<Rightarrow> nat \<Rightarrow> (oid \<rightharpoonup> product_doc) \<Rightarrow> (oid \<times> product_doc) list \<Rightarrow>
     (oid \<rightharpoonup> product_doc) \<times> bool" where
  "save_products rej k ps [] = (ps, True)"
| "save_products rej k ps (pd # rest) =
     (case product_save rej k ps pd of
        None \<Rightarrow> (ps, False)
      | Some ps' \<Rightarrow> save_products rej (Suc k) ps' rest)"

text \<open>\<^verbatim>\<open>!account\<close>: a missing or \<^verbatim>\<open>null\<close> field and the empty string are falsy.\<close>

fun falsy :: "idval option \<Rightarrow> bool" where
  "falsy None = True"
| "falsy (Some (NotOid s)) = (s = [])"
| "falsy (Some (Oid i)) = False"

text \<open>
  \<^verbatim>\<open>const { account, items, promotion = "None" } = req.body\<close>: the default replaces a
  missing promotion only, not \<^verbatim>\<open>null\<close>.
\<close>

fun promotion_default :: "idval json_field \<Rightarrow> idval option" where
  "promotion_default Absent = Some (NotOid ''None'')"
| "promotion_default JNull = None"
| "promotion_default (Given v) = Some v"

text \<open>
  The part of the handler after the guard of line 112, for a truthy \<open>account\<close> and a
  non-empty \<open>items\<close>.
\<close>

definition place_order ::
  "env \<Rightarrow> db \<Rightarrow> idval \<Rightarrow> idval line_item list \<Rightarrow> idval option \<Rightarrow> db \<times> response" where
  "place_order e d acc its promo =
     (case check_items (db_rejects e) 0 (products d) its 0 [] of
        Inl r \<Rightarrow> (d, r)
      | Inr (amount, updatedProducts) \<Rightarrow>
          (case save_products (db_rejects e) (length its) (products d) updatedProducts of
             (ps, False) \<Rightarrow> (d\<lparr>products := ps\<rparr>, Json 500 ServerError)
           | (ps, True) \<Rightarrow>
               (case newOrder_save (db_rejects e) (length its + length updatedProducts)
                       (orders d) (newObjectId e) (new_Order acc its promo amount) of
                  None \<Rightarrow> (d\<lparr>products := ps\<rparr>, Json 500 ServerError)
                | Some os \<Rightarrow>
                    (case buildPaymentUrl e amount (newObjectId e) of
                       None \<Rightarrow> (d\<lparr>products := ps, orders := os\<rparr>, Json 500 ServerError)
                     | Some url \<Rightarrow>
                         (d\<lparr>products := ps, orders := os\<rparr>,
                          Json 201 (PaymentCreated url (newObjectId e)))))))"

definition add_to_cart ::
  "env \<Rightarrow> db \<Rightarrow> idval option \<Rightarrow> idval line_item list option \<Rightarrow> idval json_field \<Rightarrow>
     db \<times> response" where
  "add_to_cart e d account_field items_field promotion_field =
     (case account_field of
        None \<Rightarrow> (d, Json 400 (Message ''An order must contain at least one product.''))
      | Some acc \<Rightarrow>
          (case items_field of
             None \<Rightarrow> (d, Json 400 (Message ''An order must contain at least one product.''))
           | Some its \<Rightarrow>
               if falsy account_field \<or> its = []
               then (d, Json 400 (Message ''An order must contain at least one product.''))
               else place_order e d acc its (promotion_default promotion_field)))"

subsection \<open>POST /cancel-order/:orderId\<close>

text \<open>
  The names bound where the handler builds \<^verbatim>\<open>mailOptions\<close> (line 297): the
  \<^verbatim>\<open>const\<close> declarations and \<^verbatim>\<open>require\<close>s of the module, the handler's
  parameters, the \<^verbatim>\<open>const\<close> declarations of the handler down to that line, and the
  names of the Node runtime that the handler reads. The \<open>account\<close> of line 110 is
  local to the cart handler and is not among them.
\<close>

definition cancel_scope :: "string list" where
  "cancel_scope =
     [''express'', ''db'', ''crypto'', ''VNPay'', ''ignoreLogger'', ''ProductCode'',
      ''VnpLocale'', ''dateFormat'', ''roleMiddleware'', ''authMiddleware'', ''nodemailer'',
      ''fs'', ''path'', ''handlebars'', ''moment'', ''axios'', ''CryptoJS'', ''orderRoute'',
      ''req'', ''res'', ''orderId'', ''order'', ''refundAmount'', ''item'', ''product'',
      ''formattedItems'', ''emailTemplatePath'', ''emailTemplateSource'', ''emailTemplate'',
      ''emailHtml'', ''transporter'', ''process'', ''console'', ''__dirname'']"

text \<open>
  Lines 281 to 307, from \<^verbatim>\<open>formattedItems\<close> to \<^verbatim>\<open>transporter.sendMail\<close>. The
  object literal of \<^verbatim>\<open>mailOptions\<close> reads \<^verbatim>\<open>account.email\<close>; reading a name that
  is not bound throws a ReferenceError (\<open>None\<close>). Reading the template file can throw
  as well, with the same effect on the handler. The outcome of \<^verbatim>\<open>sendMail\<close> itself
  is only logged by its callback.
\<close>

definition send_refund_mail :: "idval \<Rightarrow> rat \<Rightarrow> unit option" where
  "send_refund_mail orderId refundAmount =
     (if List.member cancel_scope ''account'' then Some () else None)"

text \<open>
  Lines 272 to 276: fetch the product of the line item again by the \<^verbatim>\<open>_id\<close> of the
  populated document and, if it is found, add the line item's quantity and save. The
  result is the product store and the position of the next persistence call; \<open>None\<close>
  when a call rejected.
\<close>

definition restore_stock ::
  "(nat \<Rightarrow> bool) \<Rightarrow> (oid \<rightharpoonup> product_doc) \<Rightarrow> oid \<Rightarrow> int \<Rightarrow> ((oid \<rightharpoonup> product_doc) \<times> nat) option" where
  "restore_stock rej ps p q =
     (case Product_findById rej 1 ps (Oid p) of
        None \<Rightarrow> None
      | Some None \<Rightarrow> Some (ps, 2)
      | Some (Some (p', doc)) \<Rightarrow>
          (case product_save rej 2 ps (p', doc\<lparr>quantity := quantity doc + q\<rparr>) of
             None \<Rightarrow> None
           | Some ps' \<Rightarrow> Some (ps', 3)))"

text \<open>
  The body of \<^verbatim>\<open>for (const item of order.items)\<close> (lines 271 to 313) for one line
  item. The body ends in \<^verbatim>\<open>return\<close> or in an exception, so the loop never reaches a
  second line item. \<^verbatim>\<open>item.product._id\<close> throws a TypeError when the populated
  product is \<^verbatim>\<open>null\<close>.
\<close>

definition cancel_item ::
  "env \<Rightarrow> db \<Rightarrow> idval \<Rightarrow> oid \<Rightarrow> order \<Rightarrow> rat \<Rightarrow> (oid \<times> product_doc) option line_item \<Rightarrow>
     db \<times> response option" where
  "cancel_item e d orderId i ord refundAmount item =
     (case product item of
        None \<Rightarrow> (d, Some (Json 500 ServerError))
      | Some (p, populated) \<Rightarrow>
          (case restore_stock (db_rejects e) (products d) p (item_quantity item) of
             None \<Rightarrow> (d, Some (Json 500 ServerError))
           | Some (ps, k) \<Rightarrow>
               (case order_save (db_rejects e) k (orders d) i (ord\<lparr>status := Canceled\<rparr>) of
                  None \<Rightarrow> (d\<lparr>products := ps\<rparr>, Some (Json 500 ServerError))
                | Some os \<Rightarrow>
                    (case send_refund_mail orderId refundAmount of
                       None \<Rightarrow> (d\<lparr>products := ps, orders := os\<rparr>, Some (Json 500 ServerError))
                     | Some u \<Rightarrow>
                         (d\<lparr>products := ps, orders := os\<rparr>,
                          Some (Json 200 (RefundIssued refundAmount)))))))"

text \<open>
  The handler. The response is \<open>None\<close> when the handler returns without sending one:
  the loop over an empty \<open>items\<close> array runs no iteration and nothing follows it.
\<close>

definition cancel_order :: "env \<Rightarrow> db \<Rightarrow> idval \<Rightarrow> db \<times> response option" where
  "cancel_order e d orderId =
     (case Order_findById_populate (db_rejects e) 0 d orderId of
        None \<Rightarrow> (d, Some (Json 500 ServerError))
      | Some None \<Rightarrow> (d, Some (Json 404 OrderNotFound))
      | Some (Some (i, ord, populated_items)) \<Rightarrow>
          if status ord \<noteq> Paid
          then (d, Some (Json 400 (Message ''Only paid orders can be canceled.'')))
          else (case populated_items of
                  [] \<Rightarrow> (d, None)
                | item # rest \<Rightarrow>
                    cancel_item e d orderId i ord (of_int (totalAmount ord) * (1 / 2)) item))"

subsection \<open>GET /vnpay-return\<close>

definition vnpay_return :: "env \<Rightarrow> db \<Rightarrow> string \<Rightarrow> idval \<Rightarrow> db \<times> response" where
  "vnpay_return e d vnp_ResponseCode vnp_TxnRef =
     (if vnp_ResponseCode = ''00''
      then (case Order_findByIdAndUpdate_status (db_rejects e) 0 (orders d) vnp_TxnRef Paid of
              None \<Rightarrow> (d, Json 500 ServerError)
            | Some os \<Rightarrow> (d\<lparr>orders := os\<rparr>, Redirect ''https://yourwebsite.com/payment-success''))
      else (d, Redirect ''https://yourwebsite.com/payment-failed''))"

subsection \<open>Sequences of requests\<close>

datatype request =
    AddToCart "idval option" "idval line_item list option" "idval json_field"
  | CancelOrder idval
  | VnpayReturn string idval

fun handle :: "env \<Rightarrow> db \<Rightarrow> request \<Rightarrow> db \<times> response option" where
  "handle e d (AddToCart a its pr) = (case add_to_cart e d a its pr of (d', r) \<Rightarrow> (d', Some r))"
| "handle e d (CancelOrder ref) = cancel_order e d ref"
| "handle e d (VnpayReturn code ref) = (case vnpay_return e d code ref of (d', r) \<Rightarrow> (d', Some r))"

fun run :: "db \<Rightarrow> (env \<times> request) list \<Rightarrow> db" where
  "run d [] = d"
| "run d (er # rest) = run (fst (handle (fst er) d (snd er))) rest"

subsection \<open>Example stores\<close>

text \<open>
  The scenario of the specification: product \<open>P\<close> (id 1) with quantity 10 and price 100,
  a customer account (id 5), a promotion (id 9), and 7 as the id of the next order.
\<close>

definition product_P :: product_doc where
  "product_P = \<lparr>name = ''P'', quantity = 10, price = 100\<rparr>"

definition env_ok :: env where
  "env_ok = \<lparr>db_rejects = (\<lambda>k. False),
             buildPaymentUrl = (\<lambda>amount ref. Some ''https://sandbox.vnpayment.vn/pay''),
             newObjectId = 7\<rparr>"

definition shop :: db where
  "shop = \<lparr>products = [1 \<mapsto> product_P], orders = Map.empty\<rparr>"

text \<open>The order for 3 units of \<open>P\<close>, and the store that holds it after the reservation.\<close>

definition order_of_3 :: "order_status \<Rightarrow> order" where
  "order_of_3 st = \<lparr>account = 5, status = st, items = [\<lparr>product = 1, item_quantity = 3\<rparr>],
                    promotion = Some 9, totalAmount = 300\<rparr>"

definition shop_with_order :: "order_status \<Rightarrow> db" where
  "shop_with_order st =
     \<lparr>products = [1 \<mapsto> product_P\<lparr>quantity := 7\<rparr>], orders = [7 \<mapsto> order_of_3 st]\<rparr>"

text \<open>
  A paid order with two line items and a total of 1000: 3 units of \<open>P\<close> and 2 units of
  \<open>Q\<close> (id 2, price 350), in the store as it is after the reservation of both.
\<close>

definition product_Q :: product_doc where
  "product_Q = \<lparr>name = ''Q'', quantity = 2, price = 350\<rparr>"

definition order_1000 :: order where
  "order_1000 = \<lparr>account = 5, status = Paid,
                 items = [\<lparr>product = 1, item_quantity = 3\<rparr>, \<lparr>product = 2, item_quantity = 2\<rparr>],
                 promotion = Some 9, totalAmount = 1000\<rparr>"

definition shop_with_paid_1000 :: db where
  "shop_with_paid_1000 =
     \<lparr>products = [1 \<mapsto> product_P\<lparr>quantity := 7\<rparr>, 2 \<mapsto> product_Q\<lparr>quantity := 0\<rparr>],
      orders = [8 \<mapsto> order_1000]\<rparr>"

text \<open>Environments in which one persistence call rejects.\<close>

definition env_fetch_fails :: env where
  "env_fetch_fails = env_ok\<lparr>db_rejects := (\<lambda>k. k = 0)\<rparr>"

definition env_product_fetch_fails :: env where
  "env_product_fetch_fails = env_ok\<lparr>db_rejects := (\<lambda>k. k = 1)\<rparr>"

definition env_product_save_fails :: env where
  "env_product_save_fails = env_ok\<lparr>db_rejects := (\<lambda>k. k = 2)\<rparr>"

definition env_order_save_fails :: env where
  "env_order_save_fails = env_ok\<lparr>db_rejects := (\<lambda>k. k = 3)\<rparr>"

text \<open>The paid order 7 in a store from which its product has been removed.\<close>

definition shop_without_product :: db where
  "shop_without_product = \<lparr>products = Map.empty, orders = [7 \<mapsto> order_of_3 Paid]\<rparr>"

text \<open>Carts, and the stores they are submitted to.\<close>

definition cart_3 :: "idval line_item list" where
  "cart_3 = [\<lparr>product = Oid 1, item_quantity = 3\<rparr>]"

definition cart_twice :: "idval line_item list" where
  "cart_twice = [\<lparr>product = Oid 1, item_quantity = 3\<rparr>, \<lparr>product = Oid 1, item_quantity = 3\<rparr>]"

definition cart_mixed :: "idval line_item list" where
  "cart_mixed = [\<lparr>product = Oid 1, item_quantity = 3\<rparr>, \<lparr>product = Oid 2, item_quantity = 5\<rparr>]"

definition shop_5 :: db where
  "shop_5 = \<lparr>products = [1 \<mapsto> product_P\<lparr>quantity := 5\<rparr>], orders = Map.empty\<rparr>"

definition shop_PQ :: db where
  "shop_PQ = \<lparr>products = [1 \<mapsto> product_P, 2 \<mapsto> product_Q], orders = Map.empty\<rparr>"

definition env_gateway_fails :: env where
  "env_gateway_fails = env_ok\<lparr>buildPaymentUrl := (\<lambda>amount ref. None)\<rparr>"

text \<open>
  The scenario as a sequence of requests: the cart of 3 units with a promotion, the
  success callback for the new order, and the cancellation of that order.
\<close>

definition scenario :: "(env \<times> request) list" where
  "scenario =
     [(env_ok, AddToCart (Some (Oid 5)) (Some cart_3) (Given (Oid 9))),
      (env_ok, VnpayReturn ''00'' (Oid 7)),
      (env_ok, CancelOrder (Oid 7))]"

subsection \<open>Predicates on stores\<close>

text \<open>No product has a negative quantity.\<close>

definition stock_ok :: "(oid \<rightharpoonup> product_doc) \<Rightarrow> bool" where
  "stock_ok ps = (\<forall>p doc. ps p = Some doc \<longrightarrow> 0 \<le> quantity doc)"

text \<open>Every line item of every stored order has a quantity of at least 1 (\<^verbatim>\<open>min: 1\<close>).\<close>

definition orders_ok :: "(oid \<rightharpoonup> order) \<Rightarrow> bool" where
  "orders_ok os =
     (\<forall>i ord. os i = Some ord \<longrightarrow> list_all (\<lambda>it. 1 \<le> item_quantity it) (items ord))"

text \<open>
  The documents that the first loop of a cart submission remembers, in the order of the
  cart, for line items \<open>its\<close> that name the products \<open>ids\<close> with the stored documents
  \<open>docs\<close>.
\<close>

definition reserved_docs ::
  "idval line_item list \<Rightarrow> oid list \<Rightarrow> product_doc list \<Rightarrow> (oid \<times> product_doc) list" where
  "reserved_docs its ids docs =
     map (\<lambda>(it, p, doc). (p, doc\<lparr>quantity := quantity doc - item_quantity it\<rparr>))
       (zip its (zip ids docs))"

section \<open>Properties\<close>

subsection \<open>The payment callback\<close>

text \<open>
  C10. A success callback (response code "00") whose transaction reference is the id of
  no order leaves the store as it was and, unless the persistence call throws, is
  answered with the redirect to the payment-success page. Whatever the request, the
  handler answers with a JSON body exactly when the response code is "00" and the call
  \<^verbatim>\<open>findByIdAndUpdate\<close> threw, and that answer is the 500 of the catch branch.
\<close>

theorem vnpay_return_unknown_reference:
  assumes "orders d i = None"
  shows "fst (vnpay_return e d ''00'' (Oid i)) = d \<and>
         (\<not> db_rejects e 0 \<longrightarrow>
            snd (vnpay_return e d ''00'' (Oid i)) =
              Redirect ''https://yourwebsite.com/payment-success'') \<and>
         (\<forall>code ref c b. snd (vnpay_return e d code ref) = Json c b \<longrightarrow>
            c = 500 \<and> b = ServerError \<and> code = ''00'' \<and>
            Order_findByIdAndUpdate_status (db_rejects e) 0 (orders d) ref Paid = None) \<and>
         (\<forall>ref. Order_findByIdAndUpdate_status (db_rejects e) 0 (orders d) ref Paid = None \<longrightarrow>
            snd (vnpay_return e d ''00'' ref) = Json 500 ServerError)"
  using assms
  by (auto simp: vnpay_return_def Order_findByIdAndUpdate_status_def
      split: option.splits if_splits)

theorem vnpay_return_unknown_reference_witness:
  "orders (shop_with_order Pending) 8 = None \<and> \<not> db_rejects env_ok 0 \<and>
   vnpay_return env_ok (shop_with_order Pending) ''00'' (Oid 8) =
     (shop_with_order Pending, Redirect ''https://yourwebsite.com/payment-success'')"
proof -
  have h: "orders (shop_with_order Pending) 8 = None"
    by (simp add: shop_with_order_def)
  have r: "\<not> db_rejects env_ok 0"
    by (simp add: env_ok_def)
  from vnpay_return_unknown_reference [OF h, of env_ok] r
  have "fst (vnpay_return env_ok (shop_with_order Pending) ''00'' (Oid 8)) =
          shop_with_order Pending"
    and "snd (vnpay_return env_ok (shop_with_order Pending) ''00'' (Oid 8)) =
           Redirect ''https://yourwebsite.com/payment-success''"
    by blast+
  then show ?thesis using h r by (simp add: prod_eq_iff)
qed

text \<open>
  The callback does not look at the current status. On the store that holds the
  canceled order 7, a success callback for 7 is answered with the success redirect
  and leaves the order \<open>Paid\<close>.
\<close>

theorem vnpay_return_revives_canceled_order:
  "map_option status (orders (shop_with_order Canceled) 7) = Some Canceled \<and>
   snd (vnpay_return env_ok (shop_with_order Canceled) ''00'' (Oid 7)) =
     Redirect ''https://yourwebsite.com/payment-success'' \<and>
   map_option status
     (orders (fst (vnpay_return env_ok (shop_with_order Canceled) ''00'' (Oid 7))) 7) =
     Some Paid"
  by (simp add: vnpay_return_def Order_findByIdAndUpdate_status_def shop_with_order_def
      order_of_3_def env_ok_def)

text \<open>
  C2, as the code has it. When the persistence call does not throw, a success callback
  that names an existing order sets that order's status to \<open>Paid\<close> whatever the status
  was, changes nothing else in the store, and is answered with the success redirect.
  For an order that is already \<open>Paid\<close> the store is left as it was.
\<close>

theorem vnpay_return_sets_paid:
  assumes "\<not> db_rejects e 0" and "orders d i = Some ord"
  shows "vnpay_return e d ''00'' (Oid i) =
           (d\<lparr>orders := (orders d)(i \<mapsto> ord\<lparr>status := Paid\<rparr>)\<rparr>,
            Redirect ''https://yourwebsite.com/payment-success'') \<and>
         (status ord = Paid \<longrightarrow> fst (vnpay_return e d ''00'' (Oid i)) = d)"
proof -
  have eq: "vnpay_return e d ''00'' (Oid i) =
           (d\<lparr>orders := (orders d)(i \<mapsto> ord\<lparr>status := Paid\<rparr>)\<rparr>,
            Redirect ''https://yourwebsite.com/payment-success'')"
    using assms by (simp add: vnpay_return_def Order_findByIdAndUpdate_status_def)
  have "ord\<lparr>status := Paid\<rparr> = ord" if "status ord = Paid"
    using that by simp
  then have "status ord = Paid \<Longrightarrow> (orders d)(i \<mapsto> ord\<lparr>status := Paid\<rparr>) = orders d"
    using assms(2) by (simp add: fun_upd_idem)
  with eq show ?thesis by simp
qed

theorem vnpay_return_sets_paid_witness:
  "\<not> db_rejects env_ok 0 \<and> orders (shop_with_order Pending) 7 = Some (order_of_3 Pending) \<and>
   vnpay_return env_ok (shop_with_order Pending) ''00'' (Oid 7) =
     (shop_with_order Paid, Redirect ''https://yourwebsite.com/payment-success'') \<and>
   fst (vnpay_return env_ok (shop_with_order Paid) ''00'' (Oid 7)) = shop_with_order Paid"
proof -
  have r: "\<not> db_rejects env_ok 0"
    by (simp add: env_ok_def)
  have h1: "orders (shop_with_order Pending) 7 = Some (order_of_3 Pending)"
    by (simp add: shop_with_order_def)
  have h2: "orders (shop_with_order Paid) 7 = Some (order_of_3 Paid)"
    by (simp add: shop_with_order_def)
  have p: "status (order_of_3 Paid) = Paid"
    by (simp add: order_of_3_def)
  have "vnpay_return env_ok (shop_with_order Pending) ''00'' (Oid 7) =
     (shop_with_order Paid, Redirect ''https://yourwebsite.com/payment-success'')"
    using vnpay_return_sets_paid [OF r h1]
    by (simp add: shop_with_order_def order_of_3_def)
  moreover have "fst (vnpay_return env_ok (shop_with_order Paid) ''00'' (Oid 7)) =
      shop_with_order Paid"
    using vnpay_return_sets_paid [OF r h2] p by blast
  ultimately show ?thesis using r h1 by simp
qed

subsection \<open>Cancellation\<close>

lemma send_refund_mail_throws: "send_refund_mail ref r = None"
  by (simp add: send_refund_mail_def cancel_scope_def)

lemma cancel_item_response:
  "snd (cancel_item e d ref i ord r item) = Some (Json 500 ServerError)"
  by (simp add: cancel_item_def send_refund_mail_throws split: option.splits prod.splits)

text \<open>No cancellation request is answered with status 200.\<close>

lemma cancel_order_never_succeeds: "snd (cancel_order e d ref) \<noteq> Some (Json 200 b)"
  by (simp add: cancel_order_def cancel_item_response
      split: option.splits prod.splits list.splits)

text \<open>
  C1 asks that cancelling a paid order is answered 200 with the halved total, after the
  stock of every line item is restored. The handler run on the paid order 8 (total
  1000, line items 3 of \<open>P\<close> and 2 of \<open>Q\<close>): the answer is 500, the stock of \<open>P\<close> goes
  from 7 back to 10, the stock of \<open>Q\<close> stays 0, and the order is left \<open>Canceled\<close>.
\<close>

theorem cancel_order_paid_1000:
  "snd (cancel_order env_ok shop_with_paid_1000 (Oid 8)) = Some (Json 500 ServerError) \<and>
   map_option quantity (products shop_with_paid_1000 1) = Some 7 \<and>
   map_option quantity (products (fst (cancel_order env_ok shop_with_paid_1000 (Oid 8))) 1) =
     Some 10 \<and>
   map_option quantity (products shop_with_paid_1000 2) = Some 0 \<and>
   map_option quantity (products (fst (cancel_order env_ok shop_with_paid_1000 (Oid 8))) 2) =
     Some 0 \<and>
   map_option status (orders (fst (cancel_order env_ok shop_with_paid_1000 (Oid 8))) 8) =
     Some Canceled"
  by (simp add: cancel_order_def cancel_item_def restore_stock_def Order_findById_populate_def
      populate_def Product_findById_def product_save_def order_save_def send_refund_mail_throws
      shop_with_paid_1000_def order_1000_def env_ok_def product_P_def product_Q_def)

text \<open>
  The writes of a cancellation are separate persistence calls. When the save of the
  order rejects (the fourth call), the request is answered 500, yet the stock of \<open>P\<close>
  has gone from 7 to 10 and the order is still \<open>Paid\<close>. When no call rejects, the
  request is answered 500 as well, after both writes: the stock is 10 and the order is
  \<open>Canceled\<close>.
\<close>

theorem cancel_order_not_atomic:
  "snd (cancel_order env_order_save_fails (shop_with_order Paid) (Oid 7)) =
     Some (Json 500 ServerError) \<and>
   map_option quantity (products (shop_with_order Paid) 1) = Some 7 \<and>
   map_option quantity
     (products (fst (cancel_order env_order_save_fails (shop_with_order Paid) (Oid 7))) 1) =
     Some 10 \<and>
   map_option status
     (orders (fst (cancel_order env_order_save_fails (shop_with_order Paid) (Oid 7))) 7) =
     Some Paid \<and>
   snd (cancel_order env_ok (shop_with_order Paid) (Oid 7)) = Some (Json 500 ServerError) \<and>
   map_option quantity (products (fst (cancel_order env_ok (shop_with_order Paid) (Oid 7))) 1) =
     Some 10 \<and>
   map_option status (orders (fst (cancel_order env_ok (shop_with_order Paid) (Oid 7))) 7) =
     Some Canceled"
  by (simp add: cancel_order_def cancel_item_def restore_stock_def Order_findById_populate_def
      populate_def Product_findById_def product_save_def order_save_def send_refund_mail_throws
      shop_with_order_def order_of_3_def env_order_save_fails_def env_ok_def product_P_def)

text \<open>
  A cancellation writes to the store only after the order was fetched, found \<open>Paid\<close>
  with a first line item whose product exists, and that product was fetched and saved.
\<close>

lemma cancel_item_writes:
  assumes "fst (cancel_item e d ref i ord r item) \<noteq> d"
  shows "\<exists>p doc. product item = Some (p, doc) \<and> \<not> db_rejects e 1 \<and> \<not> db_rejects e 2"
proof (cases "product item")
  case None
  with assms show ?thesis by (simp add: cancel_item_def)
next
  case (Some pd)
  obtain p doc where pd: "pd = (p, doc)" by (cases pd)
  from assms Some pd show ?thesis
    by (auto simp: cancel_item_def restore_stock_def Product_findById_def product_save_def
        order_save_def send_refund_mail_throws
        split: option.splits if_splits)
qed

text \<open>
  C3, as the code has it. The handler has no transaction: the product save and the
  order save are separate writes. Every cancellation request that fails before the
  first write leaves the store as it was, every product quantity and every order:
  \<^item> the order fetch rejects or the order id is malformed (answered 500);
  \<^item> the request is answered 404 or 400, or is left without an answer;
  \<^item> the product fetch or the product save rejects;
  \<^item> the product of the first line item no longer exists.

  The store changes only when the order is \<open>Paid\<close>, the product of its first line item
  exists, and the first three persistence calls succeed. (Nothing is promised for a
  failure after the first write.)
\<close>

theorem cancel_order_failure_before_write:
  "(db_rejects e 0 \<or> castObjectId ref = None \<longrightarrow>
      cancel_order e d ref = (d, Some (Json 500 ServerError))) \<and>
   (\<forall>c b. snd (cancel_order e d ref) = Some (Json c b) \<and> (c = 400 \<or> c = 404) \<longrightarrow>
      fst (cancel_order e d ref) = d) \<and>
   (snd (cancel_order e d ref) = None \<longrightarrow> fst (cancel_order e d ref) = d) \<and>
   (db_rejects e 1 \<or> db_rejects e 2 \<longrightarrow> fst (cancel_order e d ref) = d) \<and>
   (\<forall>i ord it rest. ref = Oid i \<and> orders d i = Some ord \<and> items ord = it # rest \<and>
        products d (product it) = None \<longrightarrow>
      fst (cancel_order e d ref) = d) \<and>
   (fst (cancel_order e d ref) \<noteq> d \<longrightarrow>
      (\<exists>i ord it rest doc. ref = Oid i \<and> orders d i = Some ord \<and> status ord = Paid \<and>
         items ord = it # rest \<and> products d (product it) = Some doc \<and>
         \<not> db_rejects e 0 \<and> \<not> db_rejects e 1 \<and> \<not> db_rejects e 2))"
proof -
  have a: "db_rejects e 0 \<or> castObjectId ref = None \<longrightarrow>
      cancel_order e d ref = (d, Some (Json 500 ServerError))"
    by (auto simp: cancel_order_def Order_findById_populate_def)
  have b: "fst (cancel_order e d ref) = d"
    if "snd (cancel_order e d ref) = Some (Json c b)" and "c = 400 \<or> c = 404" for c b
    using that
    by (auto simp: cancel_order_def cancel_item_response
        split: option.splits list.splits if_splits)
  have c: "snd (cancel_order e d ref) = None \<longrightarrow> fst (cancel_order e d ref) = d"
    by (auto simp: cancel_order_def cancel_item_response
        split: option.splits list.splits if_splits)
  have f: "\<exists>i ord it rest doc. ref = Oid i \<and> orders d i = Some ord \<and> status ord = Paid \<and>
         items ord = it # rest \<and> products d (product it) = Some doc \<and>
         \<not> db_rejects e 0 \<and> \<not> db_rejects e 1 \<and> \<not> db_rejects e 2"
    if w: "fst (cancel_order e d ref) \<noteq> d"
  proof -
    from w a have r0: "\<not> db_rejects e 0" by auto
    from w a obtain i where i: "ref = Oid i" by (cases ref) auto
    from w r0 i obtain ord where ord: "orders d i = Some ord"
      by (cases "orders d i") (auto simp: cancel_order_def Order_findById_populate_def)
    from w r0 i ord have paid: "status ord = Paid"
      by (auto simp: cancel_order_def Order_findById_populate_def split: if_splits)
    from w r0 i ord paid obtain it rest where its: "items ord = it # rest"
      by (cases "items ord") (auto simp: cancel_order_def Order_findById_populate_def)
    from w r0 i ord paid its
    have "fst (cancel_item e d ref i ord (of_int (totalAmount ord) * (1 / 2))
                 (populate (products d) it)) \<noteq> d"
      by (simp add: cancel_order_def Order_findById_populate_def)
    from cancel_item_writes [OF this]
    obtain p doc where "product (populate (products d) it) = Some (p, doc)"
      and r12: "\<not> db_rejects e 1" "\<not> db_rejects e 2"
      by blast
    then have "products d (product it) = Some doc"
      by (auto simp: populate_def split: option.splits)
    with i ord paid its r0 r12 show ?thesis by blast
  qed
  have d': "db_rejects e 1 \<or> db_rejects e 2 \<longrightarrow> fst (cancel_order e d ref) = d"
    using f by blast
  have e': "\<forall>i ord it rest. ref = Oid i \<and> orders d i = Some ord \<and> items ord = it # rest \<and>
        products d (product it) = None \<longrightarrow> fst (cancel_order e d ref) = d"
  proof (intro allI impI)
    fix i ord it rest
    assume h: "ref = Oid i \<and> orders d i = Some ord \<and> items ord = it # rest \<and>
        products d (product it) = None"
    show "fst (cancel_order e d ref) = d"
    proof (rule ccontr)
      assume "fst (cancel_order e d ref) \<noteq> d"
      from f [OF this] h show False by auto
    qed
  qed
  from a b c d' e' f show ?thesis by blast
qed

theorem cancel_order_failure_before_write_witness:
  "db_rejects env_fetch_fails 0 \<and>
   cancel_order env_fetch_fails (shop_with_order Paid) (Oid 7) =
     (shop_with_order Paid, Some (Json 500 ServerError)) \<and>
   castObjectId (NotOid ''abc'') = None \<and>
   cancel_order env_ok (shop_with_order Paid) (NotOid ''abc'') =
     (shop_with_order Paid, Some (Json 500 ServerError)) \<and>
   snd (cancel_order env_ok (shop_with_order Pending) (Oid 7)) =
     Some (Json 400 (Message ''Only paid orders can be canceled.'')) \<and>
   fst (cancel_order env_ok (shop_with_order Pending) (Oid 7)) = shop_with_order Pending \<and>
   db_rejects env_product_fetch_fails 1 \<and>
   fst (cancel_order env_product_fetch_fails (shop_with_order Paid) (Oid 7)) =
     shop_with_order Paid \<and>
   db_rejects env_product_save_fails 2 \<and>
   fst (cancel_order env_product_save_fails (shop_with_order Paid) (Oid 7)) =
     shop_with_order Paid \<and>
   orders shop_without_product 7 = Some (order_of_3 Paid) \<and>
   items (order_of_3 Paid) = [\<lparr>product = 1, item_quantity = 3\<rparr>] \<and>
   products shop_without_product 1 = None \<and>
   fst (cancel_order env_ok shop_without_product (Oid 7)) = shop_without_product"
proof -
  have r0: "db_rejects env_fetch_fails 0"
    by (simp add: env_fetch_fails_def)
  have r1: "db_rejects env_product_fetch_fails 1"
    by (simp add: env_product_fetch_fails_def)
  have r2: "db_rejects env_product_save_fails 2"
    by (simp add: env_product_save_fails_def)
  have c: "castObjectId (NotOid ''abc'') = None"
    by simp
  have s: "snd (cancel_order env_ok (shop_with_order Pending) (Oid 7)) =
     Some (Json 400 (Message ''Only paid orders can be canceled.''))"
    by (simp add: cancel_order_def Order_findById_populate_def shop_with_order_def
        order_of_3_def env_ok_def)
  have o: "orders shop_without_product 7 = Some (order_of_3 Paid)"
    and p: "products shop_without_product 1 = None"
    by (simp_all add: shop_without_product_def)
  have its: "items (order_of_3 Paid) = [\<lparr>product = 1, item_quantity = 3\<rparr>]"
    by (simp add: order_of_3_def)
  have 1: "cancel_order env_fetch_fails (shop_with_order Paid) (Oid 7) =
     (shop_with_order Paid, Some (Json 500 ServerError))"
    using cancel_order_failure_before_write
      [of env_fetch_fails "Oid 7" "shop_with_order Paid"] r0
    by blast
  have 2: "cancel_order env_ok (shop_with_order Paid) (NotOid ''abc'') =
     (shop_with_order Paid, Some (Json 500 ServerError))"
    using cancel_order_failure_before_write
      [of env_ok "NotOid ''abc''" "shop_with_order Paid"] c
    by blast
  have 3: "fst (cancel_order env_ok (shop_with_order Pending) (Oid 7)) =
      shop_with_order Pending"
    using cancel_order_failure_before_write
      [of env_ok "Oid 7" "shop_with_order Pending"] s
    by blast
  have 4: "fst (cancel_order env_product_fetch_fails (shop_with_order Paid) (Oid 7)) =
     shop_with_order Paid"
    using cancel_order_failure_before_write
      [of env_product_fetch_fails "Oid 7" "shop_with_order Paid"] r1
    by blast
  have 5: "fst (cancel_order env_product_save_fails (shop_with_order Paid) (Oid 7)) =
     shop_with_order Paid"
    using cancel_order_failure_before_write
      [of env_product_save_fails "Oid 7" "shop_with_order Paid"] r2
    by blast
  have 6: "fst (cancel_order env_ok shop_without_product (Oid 7)) = shop_without_product"
  proof -
    have "product \<lparr>product = 1::oid, item_quantity = 3\<rparr> = 1" by simp
    with o p its cancel_order_failure_before_write
      [of env_ok "Oid 7" shop_without_product]
    show ?thesis by (metis (no_types, lifting))
  qed
  from r0 r1 r2 c s o p its 1 2 3 4 5 6 show ?thesis by (simp only: simp_thms)
qed


text \<open>
  C9. A cancellation request for an id that names no order leaves the store as it was
  and is answered 404; a request for an order whose status is \<open>Pending\<close> or \<open>Canceled\<close>
  leaves the store as it was (no product quantity and no order field changes) and is
  answered 400 with the message "Only paid orders can be canceled.". The answers are
  those of a request whose order fetch does not reject.
\<close>

theorem cancel_order_preconditions:
  "(orders d i = None \<longrightarrow>
      fst (cancel_order e d (Oid i)) = d \<and>
      (\<not> db_rejects e 0 \<longrightarrow> snd (cancel_order e d (Oid i)) = Some (Json 404 OrderNotFound))) \<and>
   (orders d i = Some ord \<and> (status ord = Pending \<or> status ord = Canceled) \<longrightarrow>
      fst (cancel_order e d (Oid i)) = d \<and>
      (\<not> db_rejects e 0 \<longrightarrow>
         snd (cancel_order e d (Oid i)) =
           Some (Json 400 (Message ''Only paid orders can be canceled.''))))"
  by (auto simp: cancel_order_def Order_findById_populate_def)

theorem cancel_order_preconditions_witness:
  "orders (shop_with_order Pending) 8 = None \<and> \<not> db_rejects env_ok 0 \<and>
   cancel_order env_ok (shop_with_order Pending) (Oid 8) =
     (shop_with_order Pending, Some (Json 404 OrderNotFound)) \<and>
   orders (shop_with_order Pending) 7 = Some (order_of_3 Pending) \<and>
   status (order_of_3 Pending) = Pending \<and>
   cancel_order env_ok (shop_with_order Pending) (Oid 7) =
     (shop_with_order Pending, Some (Json 400 (Message ''Only paid orders can be canceled.''))) \<and>
   orders (shop_with_order Canceled) 7 = Some (order_of_3 Canceled) \<and>
   status (order_of_3 Canceled) = Canceled \<and>
   cancel_order env_ok (shop_with_order Canceled) (Oid 7) =
     (shop_with_order Canceled, Some (Json 400 (Message ''Only paid orders can be canceled.'')))"
proof -
  have r: "\<not> db_rejects env_ok 0"
    by (simp add: env_ok_def)
  have h0: "orders (shop_with_order Pending) 8 = None"
    by (simp add: shop_with_order_def)
  have h1: "orders (shop_with_order Pending) 7 = Some (order_of_3 Pending)"
    and h2: "orders (shop_with_order Canceled) 7 = Some (order_of_3 Canceled)"
    by (simp_all add: shop_with_order_def)
  have s1: "status (order_of_3 Pending) = Pending"
    and s2: "status (order_of_3 Canceled) = Canceled"
    by (simp_all add: order_of_3_def)
  have "cancel_order env_ok (shop_with_order Pending) (Oid 8) =
     (shop_with_order Pending, Some (Json 404 OrderNotFound))"
    using cancel_order_preconditions [of "shop_with_order Pending" 8 env_ok] h0 r
    by (simp add: prod_eq_iff)
  moreover have "cancel_order env_ok (shop_with_order Pending) (Oid 7) =
     (shop_with_order Pending, Some (Json 400 (Message ''Only paid orders can be canceled.'')))"
    using cancel_order_preconditions [of "shop_with_order Pending" 7 env_ok "order_of_3 Pending"]
      h1 s1 r
    by (simp add: prod_eq_iff)
  moreover have "cancel_order env_ok (shop_with_order Canceled) (Oid 7) =
     (shop_with_order Canceled, Some (Json 400 (Message ''Only paid orders can be canceled.'')))"
    using cancel_order_preconditions [of "shop_with_order Canceled" 7 env_ok "order_of_3 Canceled"]
      h2 s2 r
    by (simp add: prod_eq_iff)
  ultimately show ?thesis using r h0 h1 h2 s1 s2 by simp
qed

subsection \<open>Cart submission\<close>

lemmas cart_defs = add_to_cart_def place_order_def Product_findById_def product_save_def
  newOrder_save_def new_Order_def

lemma check_items_Inl_code:
  "check_items rej k ps its amount upd = Inl r \<Longrightarrow>
     \<exists>c b. r = Json c b \<and> (c = 400 \<or> c = 404 \<or> c = 500)"
proof (induction its arbitrary: k amount upd)
  case Nil
  then show ?case by simp
next
  case (Cons item rest)
  then show ?case
    by (auto split: option.splits if_splits)
qed

text \<open>A cart with a line item that cannot be served does not pass the first loop.\<close>

lemma check_items_unsatisfiable:
  assumes "it \<in> set its" and "product it = Oid p"
    and "ps p = None \<or> (\<exists>doc. ps p = Some doc \<and> quantity doc < item_quantity it)"
  shows "\<exists>r. check_items rej k ps its amount upd = Inl r"
  using assms(1)
proof (induction its arbitrary: k amount upd)
  case Nil
  then show ?case by simp
next
  case (Cons item rest)
  show ?case
  proof (cases "item = it")
    case True
    with assms(2,3) show ?thesis
      by (auto simp: Product_findById_def)
  next
    case False
    with Cons.prems have "it \<in> set rest" by simp
    from Cons.IH [OF this] show ?thesis
      by (auto split: option.splits)
  qed
qed

text \<open>
  When no call rejects and every product reference casts, the first loop fails only at
  a line item that cannot be served, with the answer for that line item.
\<close>

lemma check_items_Inl_item:
  assumes "check_items rej k ps its amount upd = Inl r"
    and "\<forall>j. \<not> rej j" and "\<forall>x \<in> set its. \<exists>q. product x = Oid q"
  shows "\<exists>x \<in> set its. \<exists>q. product x = Oid q \<and>
           (ps q = None \<and> r = Json 404 (ProductNotFound (product x)) \<or>
            (\<exists>doc. ps q = Some doc \<and> quantity doc < item_quantity x \<and>
               r = Json 400 (NotEnoughStock (name doc) (quantity doc) (item_quantity x))))"
  using assms(1,3)
proof (induction its arbitrary: k amount upd)
  case Nil
  then show ?case by simp
next
  case (Cons item rest)
  from Cons.prems(2) obtain q where q: "product item = Oid q" by auto
  from assms(2) have nk: "\<not> rej k" by simp
  show ?case
  proof (cases "ps q")
    case None
    with Cons.prems(1) q nk show ?thesis
      by (auto simp: Product_findById_def)
  next
    case (Some doc)
    show ?thesis
    proof (cases "quantity doc < item_quantity item")
      case True
      with Cons.prems(1) q Some nk show ?thesis
        by (auto simp: Product_findById_def)
    next
      case False
      with Cons.prems(1) q Some nk
      have "check_items rej (Suc k) ps rest (amount + item_quantity item * price doc)
              (upd @ [(q, doc\<lparr>quantity := quantity doc - item_quantity item\<rparr>)]) = Inl r"
        by (simp add: Product_findById_def)
      from Cons.IH [OF this] Cons.prems(2) show ?thesis by auto
    qed
  qed
qed

lemma check_items_not_created:
  "check_items rej k ps its amount upd \<noteq> Inl (Json 201 b)"
  using check_items_Inl_code [of rej k ps its amount upd "Json 201 b"] by auto

text \<open>
  C4. When some line item of a submitted cart names a product that does not exist, or
  asks for more than the product's quantity, the submission leaves the store as it was:
  no product quantity changes and no order is created. The answer is an error (400,
  404 or 500). When no persistence call rejects, the account is given and every product
  reference is well formed, the answer is that of a line item that cannot be served:
  404 naming the missing product, or 400 naming the product, its available quantity
  and the requested quantity.
\<close>

theorem add_to_cart_all_or_nothing:
  assumes "it \<in> set its" and "product it = Oid p"
    and "products d p = None \<or>
         (\<exists>doc. products d p = Some doc \<and> quantity doc < item_quantity it)"
  shows "fst (add_to_cart e d acc (Some its) promo) = d \<and>
         (\<exists>c b. snd (add_to_cart e d acc (Some its) promo) = Json c b \<and>
                (c = 400 \<or> c = 404 \<or> c = 500)) \<and>
         ((\<forall>k. \<not> db_rejects e k) \<and> \<not> falsy acc \<and> (\<forall>x \<in> set its. \<exists>q. product x = Oid q) \<longrightarrow>
            (\<exists>x \<in> set its. \<exists>q. product x = Oid q \<and>
               (products d q = None \<and>
                  snd (add_to_cart e d acc (Some its) promo) =
                    Json 404 (ProductNotFound (product x)) \<or>
                (\<exists>doc. products d q = Some doc \<and> quantity doc < item_quantity x \<and>
                   snd (add_to_cart e d acc (Some its) promo) =
                     Json 400 (NotEnoughStock (name doc) (quantity doc) (item_quantity x))))))"
proof -
  from check_items_unsatisfiable [where ps = "products d" and rej = "db_rejects e" and k = 0
      and amount = 0 and upd = "[]", OF assms]
  obtain r where r: "check_items (db_rejects e) 0 (products d) its 0 [] = Inl r"
    by blast
  from check_items_Inl_code [OF r]
  obtain c b where cb: "r = Json c b" "c = 400 \<or> c = 404 \<or> c = 500"
    by blast
  have guard: "add_to_cart e d acc (Some its) promo =
      (d, Json 400 (Message ''An order must contain at least one product.''))"
    if "falsy acc \<or> its = []"
    using that by (cases acc) (auto simp: add_to_cart_def)
  have body: "add_to_cart e d acc (Some its) promo = (d, r)"
    if "\<not> (falsy acc \<or> its = [])"
    using that r by (cases acc) (auto simp: add_to_cart_def place_order_def)
  have 1: "fst (add_to_cart e d acc (Some its) promo) = d"
    using guard body by (cases "falsy acc \<or> its = []") simp_all
  have 2: "\<exists>c b. snd (add_to_cart e d acc (Some its) promo) = Json c b \<and>
                (c = 400 \<or> c = 404 \<or> c = 500)"
    using guard body cb by (cases "falsy acc \<or> its = []") simp_all
  have 3: "\<exists>x \<in> set its. \<exists>q. product x = Oid q \<and>
               (products d q = None \<and>
                  snd (add_to_cart e d acc (Some its) promo) =
                    Json 404 (ProductNotFound (product x)) \<or>
                (\<exists>doc. products d q = Some doc \<and> quantity doc < item_quantity x \<and>
                   snd (add_to_cart e d acc (Some its) promo) =
                     Json 400 (NotEnoughStock (name doc) (quantity doc) (item_quantity x))))"
    if h: "\<forall>k. \<not> db_rejects e k" "\<not> falsy acc" "\<forall>x \<in> set its. \<exists>q. product x = Oid q"
  proof -
    from assms(1) have "its \<noteq> []" by auto
    with h(2) have "add_to_cart e d acc (Some its) promo = (d, r)"
      using body by simp
    with check_items_Inl_item [OF r h(1) h(3)] show ?thesis by simp
  qed
  from 1 2 3 show ?thesis by blast
qed

theorem add_to_cart_all_or_nothing_witness:
  "\<lparr>product = Oid 2, item_quantity = 5\<rparr> \<in> set cart_mixed \<and>
   products shop_PQ 2 = Some product_Q \<and> quantity product_Q < 5 \<and>
   add_to_cart env_ok shop_PQ (Some (Oid 5)) (Some cart_mixed) (Given (Oid 9)) =
     (shop_PQ, Json 400 (NotEnoughStock ''Q'' 2 5))"
proof -
  let ?it = "\<lparr>product = Oid 2, item_quantity = 5\<rparr> :: idval line_item"
  have m: "?it \<in> set cart_mixed"
    by (simp add: cart_mixed_def)
  have p: "product ?it = Oid 2"
    by simp
  have q: "products shop_PQ 2 = Some product_Q"
    by (simp add: shop_PQ_def)
  have lt: "quantity product_Q < 5"
    by (simp add: product_Q_def)
  have short: "products shop_PQ 2 = None \<or>
         (\<exists>doc. products shop_PQ 2 = Some doc \<and> quantity doc < item_quantity ?it)"
    using q lt by simp
  have resp: "snd (add_to_cart env_ok shop_PQ (Some (Oid 5)) (Some cart_mixed) (Given (Oid 9))) =
      Json 400 (NotEnoughStock ''Q'' 2 5)"
    by (simp add: add_to_cart_def place_order_def Product_findById_def shop_PQ_def
        cart_mixed_def env_ok_def product_P_def product_Q_def)
  from add_to_cart_all_or_nothing [OF m p short, of env_ok "Some (Oid 5)" "Given (Oid 9)"]
  have "fst (add_to_cart env_ok shop_PQ (Some (Oid 5)) (Some cart_mixed) (Given (Oid 9))) =
      shop_PQ"
    by blast
  with resp m q lt show ?thesis by (simp add: prod_eq_iff)
qed

text \<open>
  C5 asks that the quantity of a product goes down by the sum of the quantities
  reserved for it, also for a cart that lists the product twice, and that the reserved
  sum never exceeds the stock. The handler run on a product with 5 units and a cart
  that lists it twice with 3 units each: the answer is 201, the order holds 6 units,
  and the quantity goes from 5 to 2.
\<close>

theorem add_to_cart_duplicate_product:
  "snd (add_to_cart env_ok shop_5 (Some (Oid 5)) (Some cart_twice) (Given (Oid 9))) =
     Json 201 (PaymentCreated ''https://sandbox.vnpayment.vn/pay'' 7) \<and>
   map_option quantity (products shop_5 1) = Some 5 \<and>
   map_option quantity
     (products (fst (add_to_cart env_ok shop_5 (Some (Oid 5)) (Some cart_twice) (Given (Oid 9)))) 1) =
     Some 2 \<and>
   map_option (\<lambda>ord. (status ord, sum_list (map item_quantity (items ord))))
     (orders (fst (add_to_cart env_ok shop_5 (Some (Oid 5)) (Some cart_twice) (Given (Oid 9)))) 7) =
     Some (Pending, 6)"
  by (simp add: cart_defs shop_5_def cart_twice_def env_ok_def product_P_def)

lemma new_Order_default_promotion: "new_Order acc its (promotion_default Absent) amount = None"
  by (simp add: new_Order_def split: option.splits)

lemma add_to_cart_promotion_omitted:
  "snd (add_to_cart e d acc its Absent) \<noteq> Json 201 b \<and>
   orders (fst (add_to_cart e d acc its Absent)) = orders d"
  by (auto simp: add_to_cart_def place_order_def new_Order_default_promotion newOrder_save_def
      check_items_not_created
      simp del: promotion_default.simps
      split: option.splits sum.splits prod.splits bool.splits)

text \<open>
  C6 asks that every valid cart submission creates a \<open>Pending\<close> order and is answered
  201. The handler run on the scenario of the specification (10 units of \<open>P\<close> at price
  100, a cart of 3 units, no promotion field): the answer is 500, no order is created,
  and the quantity of \<open>P\<close> goes from 10 to 7.
\<close>

theorem add_to_cart_scenario_without_promotion:
  "snd (add_to_cart env_ok shop (Some (Oid 5)) (Some cart_3) Absent) = Json 500 ServerError \<and>
   orders (fst (add_to_cart env_ok shop (Some (Oid 5)) (Some cart_3) Absent)) = Map.empty \<and>
   map_option quantity (products shop 1) = Some 10 \<and>
   map_option quantity
     (products (fst (add_to_cart env_ok shop (Some (Oid 5)) (Some cart_3) Absent)) 1) = Some 7"
  by (simp add: cart_defs shop_def cart_3_def env_ok_def product_P_def)

text \<open>
  C7 asks that a submission without a promotion succeeds exactly as one with a
  promotion. The same cart submitted three ways: with a promotion id (201, the order is
  stored), with \<^verbatim>\<open>promotion: null\<close> (201, the order is stored without a promotion),
  and with the field left out (500, no order is stored, the stock is lowered).
\<close>

theorem add_to_cart_promotion_field:
  "add_to_cart env_ok shop (Some (Oid 5)) (Some cart_3) (Given (Oid 9)) =
     (shop_with_order Pending, Json 201 (PaymentCreated ''https://sandbox.vnpayment.vn/pay'' 7)) \<and>
   add_to_cart env_ok shop (Some (Oid 5)) (Some cart_3) JNull =
     (\<lparr>products = [1 \<mapsto> product_P\<lparr>quantity := 7\<rparr>],
       orders = [7 \<mapsto> (order_of_3 Pending)\<lparr>promotion := None\<rparr>]\<rparr>,
      Json 201 (PaymentCreated ''https://sandbox.vnpayment.vn/pay'' 7)) \<and>
   add_to_cart env_ok shop (Some (Oid 5)) (Some cart_3) Absent =
     (\<lparr>products = [1 \<mapsto> product_P\<lparr>quantity := 7\<rparr>], orders = Map.empty\<rparr>,
      Json 500 ServerError)"
  by (simp add: cart_defs shop_def cart_3_def env_ok_def product_P_def shop_with_order_def
      order_of_3_def)

text \<open>
  A failing payment gateway call: the answer is 500, the quantity of \<open>P\<close> stays at 7,
  not at the 10 it had before the submission, and the new order stays in the store.
\<close>

theorem add_to_cart_gateway_failure_counterexample:
  "snd (add_to_cart env_gateway_fails shop (Some (Oid 5)) (Some cart_3) (Given (Oid 9))) =
     Json 500 ServerError \<and>
   map_option quantity (products shop 1) = Some 10 \<and>
   map_option quantity
     (products
        (fst (add_to_cart env_gateway_fails shop (Some (Oid 5)) (Some cart_3) (Given (Oid 9))))
        1) = Some 7 \<and>
   map_option status
     (orders
        (fst (add_to_cart env_gateway_fails shop (Some (Oid 5)) (Some cart_3) (Given (Oid 9))))
        7) = Some Pending"
  by (simp add: cart_defs shop_def cart_3_def env_gateway_fails_def env_ok_def product_P_def)

text \<open>
  C8, as the code has it. When the payment gateway call of a submission throws, the
  submission is answered 500 and nothing is released: the store is left exactly as the
  successful submission leaves it, with the stock lowered and the \<open>Pending\<close> order
  stored.
\<close>

theorem add_to_cart_gateway_failure:
  assumes "add_to_cart (e\<lparr>buildPaymentUrl := g\<rparr>) d acc its promo = (d', Json 201 body)"
  shows "add_to_cart (e\<lparr>buildPaymentUrl := (\<lambda>amount ref. None)\<rparr>) d acc its promo =
           (d', Json 500 ServerError)"
  using assms
  by (auto simp: add_to_cart_def place_order_def check_items_not_created
      split: option.splits sum.splits prod.splits bool.splits if_splits)

theorem add_to_cart_gateway_failure_witness:
  "add_to_cart (env_ok\<lparr>buildPaymentUrl := buildPaymentUrl env_ok\<rparr>) shop (Some (Oid 5))
     (Some cart_3) (Given (Oid 9)) =
     (shop_with_order Pending, Json 201 (PaymentCreated ''https://sandbox.vnpayment.vn/pay'' 7)) \<and>
   add_to_cart (env_ok\<lparr>buildPaymentUrl := (\<lambda>amount ref. None)\<rparr>) shop (Some (Oid 5))
     (Some cart_3) (Given (Oid 9)) =
     (shop_with_order Pending, Json 500 ServerError)"
proof -
  have ok: "add_to_cart (env_ok\<lparr>buildPaymentUrl := buildPaymentUrl env_ok\<rparr>) shop (Some (Oid 5))
     (Some cart_3) (Given (Oid 9)) =
     (shop_with_order Pending, Json 201 (PaymentCreated ''https://sandbox.vnpayment.vn/pay'' 7))"
    by (simp add: cart_defs shop_def cart_3_def env_ok_def product_P_def shop_with_order_def
        order_of_3_def)
  from add_to_cart_gateway_failure [OF ok] ok show ?thesis by simp
qed

subsection \<open>The successful cart submission\<close>

lemma check_items_ok:
  assumes "\<forall>j. \<not> rej j"
  shows "map product its = map Oid ids \<Longrightarrow> map ps ids = map Some docs \<Longrightarrow>
     list_all (\<lambda>(it, doc). item_quantity it \<le> quantity doc) (zip its docs) \<Longrightarrow>
     check_items rej k ps its amount upd =
       Inr (amount + (\<Sum>(it, doc) \<leftarrow> zip its docs. item_quantity it * price doc),
            upd @ map (\<lambda>(it, p, doc). (p, doc\<lparr>quantity := quantity doc - item_quantity it\<rparr>))
                    (zip its (zip ids docs)))"
proof (induction its arbitrary: ids docs k amount upd)
  case Nil
  then show ?case by simp
next
  case (Cons item rest)
  from Cons.prems(1) obtain p ids' where ids: "ids = p # ids'" "product item = Oid p"
    "map product rest = map Oid ids'"
    by (cases ids) auto
  from Cons.prems(2) ids(1) obtain doc docs' where docs: "docs = doc # docs'" "ps p = Some doc"
    "map ps ids' = map Some docs'"
    by (cases docs) auto
  from Cons.prems(3) docs(1) have le: "item_quantity item \<le> quantity doc"
    and rest: "list_all (\<lambda>(it, doc). item_quantity it \<le> quantity doc) (zip rest docs')"
    by simp_all
  from assms have nk: "\<not> rej k" by simp
  show ?case
    using ids(2) docs(2) le nk Cons.IH [OF ids(3) docs(3) rest]
    by (simp add: Product_findById_def ids(1) docs(1) add.assoc)
qed

lemma save_products_ok:
  assumes "\<forall>j. \<not> rej j"
  shows "save_products rej k ps upd = (ps ++ map_of (rev upd), True)"
proof (induction upd arbitrary: k ps)
  case Nil
  then show ?case by simp
next
  case (Cons pd rest)
  from assms have nk: "\<not> rej k" by simp
  have upd: "ps(fst pd \<mapsto> snd pd) ++ map_of (rev rest) = ps ++ map_of (rev (pd # rest))"
    by (cases pd) (auto simp: map_add_def fun_eq_iff split: option.splits)
  have "save_products rej k ps (pd # rest) =
      save_products rej (Suc k) (ps(fst pd \<mapsto> snd pd)) rest"
    using nk by (simp add: product_save_def)
  also have "\<dots> = (ps(fst pd \<mapsto> snd pd) ++ map_of (rev rest), True)"
    by (rule Cons.IH)
  finally show ?case
    by (simp only: upd)
qed

lemma cast_items_ok:
  "map product its = map Oid ids \<Longrightarrow> list_all (\<lambda>it. 1 \<le> item_quantity it) its \<Longrightarrow>
   cast_items its =
     Some (map (\<lambda>(it, p). \<lparr>product = p, item_quantity = item_quantity it\<rparr>) (zip its ids))"
proof (induction its arbitrary: ids)
  case Nil
  then show ?case by simp
next
  case (Cons item rest)
  from Cons.prems(1) obtain p ids' where ids: "ids = p # ids'" "product item = Oid p"
    "map product rest = map Oid ids'"
    by (cases ids) auto
  from Cons.prems(2) have q: "1 \<le> item_quantity item" "list_all (\<lambda>it. 1 \<le> item_quantity it) rest"
    by simp_all
  from Cons.IH [OF ids(3) q(2)] ids(1,2) q(1) show ?case by simp
qed

lemma map_fst_reserved_docs:
  "length its = length ids \<Longrightarrow> length ids = length docs \<Longrightarrow>
   map fst (reserved_docs its ids docs) = ids"
proof (induction its arbitrary: ids docs)
  case Nil
  then show ?case by (simp add: reserved_docs_def)
next
  case (Cons item rest)
  then show ?case
    by (cases ids; cases docs) (simp_all add: reserved_docs_def)
qed

text \<open>
  X1. A cart submission with a given account, a non-empty list of line items that name
  distinct existing products, each with a quantity of at least 1 and at most the
  product's stock, and a promotion that is \<^verbatim>\<open>null\<close> or a well-formed id, in an
  environment where no persistence call rejects, the new order id is unused and the
  gateway returns a URL: the answer is 201 with that URL and the new order id; the new
  order is stored \<open>Pending\<close> with the submitted line items, the promotion and the sum of
  quantity times price as total; every named product has its quantity lowered by the
  requested quantity, and no other product changes.
\<close>

theorem add_to_cart_places_order:
  assumes rej: "\<forall>k. \<not> db_rejects e k"
    and ids: "map product its = map Oid ids" "distinct ids" "its \<noteq> []"
    and docs: "map (products d) ids = map Some docs"
    and qty: "list_all2 (\<lambda>it doc. 1 \<le> item_quantity it \<and> item_quantity it \<le> quantity doc) its docs"
    and promo: "promo = JNull \<and> pr = None \<or> (\<exists>r. promo = Given (Oid r) \<and> pr = Some r)"
    and fresh: "orders d (newObjectId e) = None"
    and url: "buildPaymentUrl e (\<Sum>(it, doc) \<leftarrow> zip its docs. item_quantity it * price doc)
                (newObjectId e) = Some url"
  shows "snd (add_to_cart e d (Some (Oid a)) (Some its) promo) =
           Json 201 (PaymentCreated url (newObjectId e)) \<and>
         orders (fst (add_to_cart e d (Some (Oid a)) (Some its) promo)) =
           (orders d)(newObjectId e \<mapsto>
              \<lparr>account = a, status = Pending,
               items = map (\<lambda>(it, p). \<lparr>product = p, item_quantity = item_quantity it\<rparr>) (zip its ids),
               promotion = pr,
               totalAmount = (\<Sum>(it, doc) \<leftarrow> zip its docs. item_quantity it * price doc)\<rparr>) \<and>
         list_all (\<lambda>(it, p, doc).
             products (fst (add_to_cart e d (Some (Oid a)) (Some its) promo)) p =
               Some (doc\<lparr>quantity := quantity doc - item_quantity it\<rparr>))
           (zip its (zip ids docs)) \<and>
         (\<forall>p. p \<notin> set ids \<longrightarrow>
            products (fst (add_to_cart e d (Some (Oid a)) (Some its) promo)) p = products d p)"
proof -
  let ?total = "\<Sum>(it, doc) \<leftarrow> zip its docs. item_quantity it * price doc"
  let ?upd = "reserved_docs its ids docs"
  let ?ord = "\<lparr>account = a, status = Pending,
               items = map (\<lambda>(it, p). \<lparr>product = p, item_quantity = item_quantity it\<rparr>) (zip its ids),
               promotion = pr, totalAmount = ?total\<rparr>"
  from ids(1) have len1: "length its = length ids"
    by (metis length_map)
  from docs have len2: "length ids = length docs"
    by (metis length_map)
  from qty have le: "list_all (\<lambda>(it, doc). item_quantity it \<le> quantity doc) (zip its docs)"
    by (auto simp: list_all2_iff list_all_iff)
  from qty have ge: "list_all (\<lambda>it. 1 \<le> item_quantity it) its"
    by (auto simp: list_all_iff list_all2_conv_all_nth in_set_conv_nth)
  have chk: "check_items (db_rejects e) 0 (products d) its 0 [] = Inr (?total, ?upd)"
    using check_items_ok [OF rej ids(1) docs le, of 0 0 "[]"]
    by (simp add: reserved_docs_def)
  have sav: "save_products (db_rejects e) (length its) (products d) ?upd =
      (products d ++ map_of (rev ?upd), True)"
    by (rule save_products_ok [OF rej])
  have new: "new_Order (Oid a) its (promotion_default promo) ?total = Some ?ord"
    using promo cast_items_ok [OF ids(1) ge] by (auto simp: new_Order_def)
  have ins: "newOrder_save (db_rejects e) (length its + length ?upd) (orders d) (newObjectId e)
      (Some ?ord) = Some ((orders d)(newObjectId e \<mapsto> ?ord))"
    using rej fresh by (simp add: newOrder_save_def)
  have res: "add_to_cart e d (Some (Oid a)) (Some its) promo =
      (d\<lparr>products := products d ++ map_of (rev ?upd),
         orders := (orders d)(newObjectId e \<mapsto> ?ord)\<rparr>,
       Json 201 (PaymentCreated url (newObjectId e)))"
    using ids(3) by (simp add: add_to_cart_def place_order_def chk sav new ins url)
  have keys: "map fst ?upd = ids"
    by (rule map_fst_reserved_docs [OF len1 len2])
  with ids(2) have dist: "distinct (map fst (rev ?upd))"
    by (simp add: rev_map [symmetric])
  have found: "(products d ++ map_of (rev ?upd)) p =
      Some (doc\<lparr>quantity := quantity doc - item_quantity it\<rparr>)"
    if "(it, p, doc) \<in> set (zip its (zip ids docs))" for it p doc
  proof -
    from that have "(p, doc\<lparr>quantity := quantity doc - item_quantity it\<rparr>) \<in> set (rev ?upd)"
      by (force simp: reserved_docs_def)
    with dist have "map_of (rev ?upd) p = Some (doc\<lparr>quantity := quantity doc - item_quantity it\<rparr>)"
      by (rule map_of_is_SomeI)
    then show ?thesis by simp
  qed
  have other: "(products d ++ map_of (rev ?upd)) p = products d p" if "p \<notin> set ids" for p
  proof -
    from that keys have "p \<notin> fst ` set (rev ?upd)"
      by (metis set_map set_rev)
    then have "map_of (rev ?upd) p = None"
      by (simp add: map_of_eq_None_iff)
    then show ?thesis by (simp add: map_add_def)
  qed
  from found have all: "list_all (\<lambda>(it, p, doc).
      (products d ++ map_of (rev ?upd)) p = Some (doc\<lparr>quantity := quantity doc - item_quantity it\<rparr>))
      (zip its (zip ids docs))"
    by (auto simp: list_all_iff)
  show ?thesis
    using all other by (simp add: res)
qed


theorem add_to_cart_places_order_witness:
  "snd (add_to_cart env_ok shop (Some (Oid 5)) (Some cart_3) (Given (Oid 9))) =
     Json 201 (PaymentCreated ''https://sandbox.vnpayment.vn/pay'' 7) \<and>
   orders (fst (add_to_cart env_ok shop (Some (Oid 5)) (Some cart_3) (Given (Oid 9)))) =
     [7 \<mapsto> order_of_3 Pending] \<and>
   products (fst (add_to_cart env_ok shop (Some (Oid 5)) (Some cart_3) (Given (Oid 9)))) 1 =
     Some (product_P\<lparr>quantity := 7\<rparr>)"
proof -
  have rej: "\<forall>k. \<not> db_rejects env_ok k"
    by (simp add: env_ok_def)
  have ids: "map product cart_3 = map Oid [1]" "distinct [1::oid]" "cart_3 \<noteq> []"
    by (simp_all add: cart_3_def)
  have docs: "map (products shop) [1] = map Some [product_P]"
    by (simp add: shop_def)
  have qty: "list_all2 (\<lambda>it doc. 1 \<le> item_quantity it \<and> item_quantity it \<le> quantity doc)
      cart_3 [product_P]"
    by (simp add: cart_3_def product_P_def)
  have promo: "Given (Oid 9) = JNull \<and> Some 9 = None \<or>
      (\<exists>r. Given (Oid 9) = Given (Oid r) \<and> Some (9::oid) = Some r)"
    by simp
  have fresh: "orders shop (newObjectId env_ok) = None"
    by (simp add: shop_def)
  have url: "buildPaymentUrl env_ok
      (\<Sum>(it, doc) \<leftarrow> zip cart_3 [product_P]. item_quantity it * price doc)
      (newObjectId env_ok) = Some ''https://sandbox.vnpayment.vn/pay''"
    by (simp add: env_ok_def)
  from add_to_cart_places_order [OF rej ids docs qty promo fresh url, of 5]
  show ?thesis
    by (simp add: cart_3_def product_P_def env_ok_def shop_def order_of_3_def)
qed

subsection \<open>Stock never goes negative\<close>

lemma check_items_nonneg:
  "check_items rej k ps its amount upd = Inr (t, upd') \<Longrightarrow>
   list_all (\<lambda>pd. 0 \<le> quantity (snd pd)) upd \<Longrightarrow>
   list_all (\<lambda>pd. 0 \<le> quantity (snd pd)) upd'"
proof (induction its arbitrary: k amount upd)
  case Nil
  then show ?case by simp
next
  case (Cons item rest)
  from Cons.prems(1) obtain p doc where
    f: "Product_findById rej k ps (product item) = Some (Some (p, doc))"
    and le: "\<not> quantity doc < item_quantity item"
    and r: "check_items rej (Suc k) ps rest (amount + item_quantity item * price doc)
              (upd @ [(p, doc\<lparr>quantity := quantity doc - item_quantity item\<rparr>)]) = Inr (t, upd')"
    by (auto split: option.splits if_splits)
  from le Cons.prems(2)
  have "list_all (\<lambda>pd. 0 \<le> quantity (snd pd))
          (upd @ [(p, doc\<lparr>quantity := quantity doc - item_quantity item\<rparr>)])"
    by simp
  with Cons.IH [OF r] show ?case .
qed

lemma save_products_nonneg:
  "stock_ok ps \<Longrightarrow> list_all (\<lambda>pd. 0 \<le> quantity (snd pd)) upd \<Longrightarrow>
   stock_ok (fst (save_products rej k ps upd))"
proof (induction upd arbitrary: k ps)
  case Nil
  then show ?case by simp
next
  case (Cons pd rest)
  from Cons.prems have s: "stock_ok (ps(fst pd \<mapsto> snd pd))"
    by (simp add: stock_ok_def)
  from Cons.prems(2) have r: "list_all (\<lambda>pd. 0 \<le> quantity (snd pd)) rest"
    by simp
  show ?case
  proof (cases "rej k")
    case True
    with Cons.prems(1) show ?thesis by (simp add: product_save_def)
  next
    case False
    have "save_products rej k ps (pd # rest) =
        save_products rej (Suc k) (ps(fst pd \<mapsto> snd pd)) rest"
      using False by (simp add: product_save_def)
    with Cons.IH [OF s r] show ?thesis by (simp only:)
  qed
qed

lemma cast_items_ge1:
  "cast_items its = Some cs \<Longrightarrow> list_all (\<lambda>it. 1 \<le> item_quantity it) cs"
  by (induction its arbitrary: cs) (auto split: option.splits if_splits)

lemma new_Order_items_ge1:
  "new_Order acc its promo amount = Some ord \<Longrightarrow> list_all (\<lambda>it. 1 \<le> item_quantity it) (items ord)"
  by (auto simp: new_Order_def dest: cast_items_ge1 split: option.splits)

lemma newOrder_save_ok:
  "orders_ok os \<Longrightarrow> newOrder_save rej k os i (new_Order acc its promo amount) = Some os' \<Longrightarrow>
   orders_ok os'"
  by (auto simp: newOrder_save_def orders_ok_def dest: new_Order_items_ge1
      split: option.splits if_splits)

lemma place_order_ok:
  assumes "stock_ok (products d)" and "orders_ok (orders d)"
  shows "stock_ok (products (fst (place_order e d acc its promo))) \<and>
         orders_ok (orders (fst (place_order e d acc its promo)))"
proof (cases "check_items (db_rejects e) 0 (products d) its 0 []")
  case (Inl r)
  with assms show ?thesis by (simp add: place_order_def)
next
  case (Inr res)
  obtain amount upd where res: "res = (amount, upd)" by (cases res)
  from check_items_nonneg [OF Inr [unfolded res]] have "list_all (\<lambda>pd. 0 \<le> quantity (snd pd)) upd"
    by simp
  from save_products_nonneg [OF assms(1) this]
  have s: "stock_ok (fst (save_products (db_rejects e) (length its) (products d) upd))" .
  show ?thesis
    using Inr res s assms(2)
    by (auto simp: place_order_def dest: newOrder_save_ok split: prod.splits bool.splits option.splits)
qed

lemma add_to_cart_ok:
  assumes "stock_ok (products d)" and "orders_ok (orders d)"
  shows "stock_ok (products (fst (add_to_cart e d acc its promo))) \<and>
         orders_ok (orders (fst (add_to_cart e d acc its promo)))"
  using assms place_order_ok [OF assms]
  by (simp add: add_to_cart_def split: option.splits)

lemma vnpay_return_ok:
  assumes "stock_ok (products d)" and "orders_ok (orders d)"
  shows "stock_ok (products (fst (vnpay_return e d code ref))) \<and>
         orders_ok (orders (fst (vnpay_return e d code ref)))"
  using assms
  by (auto simp: vnpay_return_def Order_findByIdAndUpdate_status_def orders_ok_def
      split: option.splits if_splits)

lemma restore_stock_ok:
  "stock_ok ps \<Longrightarrow> 0 \<le> q \<Longrightarrow> restore_stock rej ps p q = Some (ps', k) \<Longrightarrow> stock_ok ps'"
  by (auto simp: restore_stock_def Product_findById_def product_save_def stock_ok_def
      split: option.splits if_splits)

lemma cancel_item_ok:
  assumes "stock_ok (products d)" and "orders_ok (orders d)" and "orders d i = Some ord"
    and "0 \<le> item_quantity item"
  shows "stock_ok (products (fst (cancel_item e d ref i ord r item))) \<and>
         orders_ok (orders (fst (cancel_item e d ref i ord r item)))"
proof -
  from assms(2,3) have "orders_ok ((orders d)(i \<mapsto> ord\<lparr>status := Canceled\<rparr>))"
    by (auto simp: orders_ok_def)
  with assms(1,2,4) show ?thesis
    by (auto simp: cancel_item_def order_save_def dest: restore_stock_ok
        split: option.splits prod.splits if_splits)
qed

lemma cancel_order_ok:
  assumes "stock_ok (products d)" and "orders_ok (orders d)"
  shows "stock_ok (products (fst (cancel_order e d ref))) \<and>
         orders_ok (orders (fst (cancel_order e d ref)))"
proof (cases "Order_findById_populate (db_rejects e) 0 d ref")
  case None
  with assms show ?thesis by (simp add: cancel_order_def)
next
  case (Some found)
  show ?thesis
  proof (cases found)
    case None
    with Some assms show ?thesis by (simp add: cancel_order_def)
  next
    case (Some res)
    obtain i ord populated where res: "res = (i, ord, populated)" by (cases res)
    from \<open>Order_findById_populate (db_rejects e) 0 d ref = Some found\<close> Some res
    have o: "orders d i = Some ord" and pop: "populated = map (populate (products d)) (items ord)"
      by (auto simp: Order_findById_populate_def split: if_splits option.splits)
    from assms(2) o have ge: "list_all (\<lambda>it. 1 \<le> item_quantity it) (items ord)"
      by (simp add: orders_ok_def)
    show ?thesis
    proof (cases populated)
      case Nil
      with \<open>Order_findById_populate (db_rejects e) 0 d ref = Some found\<close> Some res assms
      show ?thesis by (simp add: cancel_order_def)
    next
      case (Cons item rest)
      with pop ge have "0 \<le> item_quantity item"
        by (cases "items ord") (auto simp: populate_def)
      from cancel_item_ok [OF assms o this]
        \<open>Order_findById_populate (db_rejects e) 0 d ref = Some found\<close> Some res Cons assms
      show ?thesis by (simp add: cancel_order_def)
    qed
  qed
qed

lemma handle_ok:
  assumes "stock_ok (products d)" and "orders_ok (orders d)"
  shows "stock_ok (products (fst (handle e d req))) \<and> orders_ok (orders (fst (handle e d req)))"
proof (cases req)
  case (AddToCart a its pr)
  obtain d' r where eq: "add_to_cart e d a its pr = (d', r)"
    by (cases "add_to_cart e d a its pr")
  with add_to_cart_ok [OF assms, of e a its pr] AddToCart show ?thesis by simp
next
  case (CancelOrder ref)
  with cancel_order_ok [OF assms, of e ref] show ?thesis by simp
next
  case (VnpayReturn code ref)
  obtain d' r where eq: "vnpay_return e d code ref = (d', r)"
    by (cases "vnpay_return e d code ref")
  with vnpay_return_ok [OF assms, of e code ref] VnpayReturn show ?thesis by simp
qed

text \<open>
  X2. From a store in which no product quantity is negative and every line item of
  every stored order has a quantity of at least 1, any sequence of cart submissions,
  payment callbacks and cancellations, handled one after the other and whatever calls
  fail on the way, leads to a store with the same two properties: no product quantity
  is ever negative.
\<close>

theorem run_stock_never_negative:
  assumes "stock_ok (products d)" and "orders_ok (orders d)"
  shows "stock_ok (products (run d reqs)) \<and> orders_ok (orders (run d reqs))"
  using assms
proof (induction reqs arbitrary: d)
  case Nil
  then show ?case by simp
next
  case (Cons er rest)
  from handle_ok [OF Cons.prems, of "fst er" "snd er"] Cons.IH show ?case by simp
qed

theorem run_stock_never_negative_witness:
  "stock_ok (products shop) \<and> orders_ok (orders shop) \<and>
   stock_ok (products (run shop scenario)) \<and>
   map_option quantity (products (run shop scenario) 1) = Some 10 \<and>
   map_option status (orders (run shop scenario) 7) = Some Canceled"
proof -
  have s: "stock_ok (products shop)"
    by (auto simp: stock_ok_def shop_def product_P_def split: if_splits)
  have o: "orders_ok (orders shop)"
    by (simp add: orders_ok_def shop_def)
  have r: "map_option quantity (products (run shop scenario) 1) = Some 10 \<and>
      map_option status (orders (run shop scenario) 7) = Some Canceled"
    by (simp add: scenario_def cart_defs cancel_order_def cancel_item_def restore_stock_def
        Order_findById_populate_def populate_def order_save_def send_refund_mail_throws
        vnpay_return_def Order_findByIdAndUpdate_status_def
        shop_def cart_3_def env_ok_def product_P_def)
  from run_stock_never_negative [OF s o, of scenario] s o r show ?thesis by simp
qed

end
